theory Spec2Isabelle
  imports Complex_Main
begin

section \<open>Grid data\<close>

text \<open>
  The tables of \<open>fledge.database_interface.ElectricGridData\<close> that
  \<open>electric_grid_models.py\<close> reads, one record per table row, with exactly the columns
  the code accesses (the columns \<open>r\<close>, \<open>x\<close>, \<open>c\<close> of the line type matrices are the
  fields \<open>r_entry\<close>, \<open>x_entry\<close>, \<open>c_entry\<close>; \<open>length\<close> of a line is \<open>line_length\<close>). The three phase columns are shared by nodes, lines, transformers and
  loads. They are integer columns: the code compares them with \<open>== 1\<close> and sums them.
  Floating-point columns are modelled by exact reals.
\<close>

record phase_flags =
  is_phase_1_connected :: nat
  is_phase_2_connected :: nat
  is_phase_3_connected :: nat

record electric_grid_node = phase_flags +
  node_name :: string

record electric_grid_line = phase_flags +
  line_name :: string
  line_type :: string
  node_1_name :: string
  node_2_name :: string
  n_phases :: nat
  line_length :: real

record electric_grid_line_types_matrix_entry =
  entry_line_type :: string
  r_entry :: real
  x_entry :: real
  c_entry :: real

record electric_grid_transformer = phase_flags +
  transformer_name :: string
  winding :: nat

record electric_grid_load = phase_flags +
  load_name :: string
  load_node_name :: string

record electric_grid =
  source_node_name :: string

record ElectricGridData =
  electric_grids :: "electric_grid list"
  electric_grid_nodes :: "electric_grid_node list"
  electric_grid_lines :: "electric_grid_line list"
  electric_grid_line_types_matrices :: "electric_grid_line_types_matrix_entry list"
  electric_grid_transformers :: "electric_grid_transformer list"
  electric_grid_loads :: "electric_grid_load list"

text \<open>
  The exceptions that construction can raise. None is raised by a \<open>raise\<close> statement of
  the module itself: they come from the library calls at the places named below.
  \<^item> \<open>KeyError k\<close>: a dictionary or label lookup of the missing key \<open>k\<close>;
  \<^item> \<open>ValueError n k\<close>: assigning a column of \<open>n\<close> values to a frame of \<open>k\<close> rows;
  \<^item> \<open>IndexError i n\<close>: index \<open>i\<close> is out of bounds for an array of size \<open>n\<close>;
  \<^item> \<open>LinAlgError\<close>: \<open>np.linalg.inv\<close> of a singular matrix;
  \<^item> \<open>TypeError\<close>: iterating over \<open>None\<close>.
\<close>

datatype error =
  KeyError string
  | ValueError nat nat
  | IndexError nat nat
  | LinAlgError
  | TypeError

section \<open>Electric grid index\<close>

text \<open>\<open>table.loc[:, [flags]].sum().sum()\<close>: the three column sums, added up.\<close>

definition phase_sum :: "'a phase_flags_scheme list \<Rightarrow> nat" where
  "phase_sum rows =
     sum_list (map is_phase_1_connected rows)
     + sum_list (map is_phase_2_connected rows)
     + sum_list (map is_phase_3_connected rows)"

text \<open>\<open>table.loc[table[flag] == 1, name]\<close>: the names of the rows whose flag is 1.\<close>

definition loc_connected ::
  "('r \<Rightarrow> nat) \<Rightarrow> ('r \<Rightarrow> string) \<Rightarrow> 'r list \<Rightarrow> string list" where
  "loc_connected flag name rows = map name (filter (\<lambda>row. flag row = 1) rows)"

text \<open>\<open>sum(table[flag] == 1)\<close>: the number of rows whose flag is 1.\<close>

definition count_connected :: "('r \<Rightarrow> nat) \<Rightarrow> 'r list \<Rightarrow> nat" where
  "count_connected flag rows = length (filter (\<lambda>row. flag row = 1) rows)"

text \<open>\<open>np.nonzero(mask)[0].tolist()\<close>: the zero-based positions where the mask holds.\<close>

definition nonzero :: "bool list \<Rightarrow> nat list" where
  "nonzero bs = filter (\<lambda>i. bs ! i) [0..<length bs]"

text \<open>
  \<open>dict.fromkeys(keys)\<close> maps every key to \<open>None\<close>; the loops that follow assign
  position lists. A dictionary value is therefore \<open>None\<close> (Python's) or a position list.
\<close>

type_synonym position_dict = "string \<rightharpoonup> nat list option"

definition fromkeys :: "string list \<Rightarrow> position_dict" where
  "fromkeys keys = fold (\<lambda>k m. m(k \<mapsto> None)) keys Map.empty"

definition assign_positions ::
  "(string \<Rightarrow> nat list) \<Rightarrow> string list \<Rightarrow> position_dict \<Rightarrow> position_dict" where
  "assign_positions f keys m = fold (\<lambda>k m. m(k \<mapsto> Some (f k))) keys m"

record ElectricGridIndex =
  node_dimension :: nat
  branch_dimension :: nat
  load_dimension :: nat
  phases :: "string list"
  node_names :: "string list"
  node_types :: "string list"
  nodes_phases :: "(string \<times> string) list"
  line_names :: "string list"
  transformer_names :: "string list"
  branch_names :: "string list"
  branch_types :: "string list"
  branches_phases :: "(string \<times> string \<times> string) list"
  load_names :: "string list"
  node_by_node_name :: position_dict
  node_by_phase :: position_dict
  node_by_node_type :: position_dict
  node_by_load_name :: position_dict
  branch_by_line_name :: position_dict
  branch_by_transformer_name :: position_dict
  branch_by_phase :: position_dict
  load_by_load_name :: "string \<rightharpoonup> nat"

text \<open>Transformers for the first winding (source lines 50 to 55).\<close>

definition electric_grid_transformers_one_winding ::
  "ElectricGridData \<Rightarrow> electric_grid_transformer list" where
  "electric_grid_transformers_one_winding d =
     filter (\<lambda>t. winding t = 1) (electric_grid_transformers d)"

definition line_dimension :: "ElectricGridData \<Rightarrow> nat" where
  "line_dimension d = phase_sum (electric_grid_lines d)"

definition transformer_dimension :: "ElectricGridData \<Rightarrow> nat" where
  "transformer_dimension d = phase_sum (electric_grid_transformers_one_winding d)"

text \<open>
  The columns of the frame \<open>nodes\<close> (source lines 125 to 155) and of the frame
  \<open>branches\<close> (lines 174 to 219), before they are assigned to the frames.
\<close>

definition nodes_node_name :: "ElectricGridData \<Rightarrow> string list" where
  "nodes_node_name d =
     loc_connected is_phase_1_connected node_name (electric_grid_nodes d)
     @ loc_connected is_phase_2_connected node_name (electric_grid_nodes d)
     @ loc_connected is_phase_3_connected node_name (electric_grid_nodes d)"

definition nodes_phase :: "ElectricGridData \<Rightarrow> string list" where
  "nodes_phase d =
     replicate (count_connected is_phase_1_connected (electric_grid_nodes d)) ''1''
     @ replicate (count_connected is_phase_2_connected (electric_grid_nodes d)) ''2''
     @ replicate (count_connected is_phase_3_connected (electric_grid_nodes d)) ''3''"

definition nodes_node_type :: "ElectricGridData \<Rightarrow> string \<Rightarrow> string list" where
  "nodes_node_type d source =
     map (\<lambda>name. if name = source then ''source'' else ''no_source'') (nodes_node_name d)"

definition branches_branch_name :: "ElectricGridData \<Rightarrow> string list" where
  "branches_branch_name d =
     loc_connected is_phase_1_connected line_name (electric_grid_lines d)
     @ loc_connected is_phase_2_connected line_name (electric_grid_lines d)
     @ loc_connected is_phase_3_connected line_name (electric_grid_lines d)
     @ loc_connected is_phase_1_connected transformer_name
         (electric_grid_transformers_one_winding d)
     @ loc_connected is_phase_2_connected transformer_name
         (electric_grid_transformers_one_winding d)
     @ loc_connected is_phase_3_connected transformer_name
         (electric_grid_transformers_one_winding d)"

definition branches_phase :: "ElectricGridData \<Rightarrow> string list" where
  "branches_phase d =
     replicate (count_connected is_phase_1_connected (electric_grid_lines d)) ''1''
     @ replicate (count_connected is_phase_2_connected (electric_grid_lines d)) ''2''
     @ replicate (count_connected is_phase_3_connected (electric_grid_lines d)) ''3''
     @ replicate (count_connected is_phase_1_connected
         (electric_grid_transformers_one_winding d)) ''1''
     @ replicate (count_connected is_phase_2_connected
         (electric_grid_transformers_one_winding d)) ''2''
     @ replicate (count_connected is_phase_3_connected
         (electric_grid_transformers_one_winding d)) ''3''"

definition branches_branch_type :: "ElectricGridData \<Rightarrow> string list" where
  "branches_branch_type d =
     replicate (line_dimension d) ''line''
     @ replicate (transformer_dimension d) ''transformer''"

text \<open>
  \<open>np.where(flags, ['1', '2', '3'], None)\<close> of a load (source lines 258 to 268): the
  labels of its connected phases.
\<close>

definition load_phases :: "electric_grid_load \<Rightarrow> string list" where
  "load_phases l =
     (if is_phase_1_connected l = 1 then [''1''] else [])
     @ (if is_phase_2_connected l = 1 then [''2''] else [])
     @ (if is_phase_3_connected l = 1 then [''3''] else [])"

text \<open>
  \<open>ElectricGridIndex.__init__\<close>. The frames \<open>nodes\<close> and \<open>branches\<close> are created with
  \<open>node_dimension\<close> and \<open>branch_dimension\<close> rows. Assigning the \<open>phase\<close> column, a NumPy
  array, to a frame of another length raises \<open>ValueError\<close>; the name column, a Series, is
  aligned to the frame instead, so on the path that passes the check it is the
  concatenation itself. \<open>electric_grids['source_node_name'][0]\<close> raises \<open>KeyError\<close> on
  an empty table. The loads table is keyed by load name, so
  \<open>electric_grid_loads.at[load_name, column]\<close> reads the row of that load.

  The loop at lines 294 to 300 iterates over the transformer names and assigns into
  \<open>branch_by_line_name\<close>; \<open>branch_by_transformer_name\<close> keeps what \<open>dict.fromkeys\<close>
  gave it.
\<close>

definition ElectricGridIndex_init :: "ElectricGridData \<Rightarrow> error + ElectricGridIndex" where
  "ElectricGridIndex_init d =
    (let node_dim = phase_sum (electric_grid_nodes d);
         branch_dim = line_dimension d + transformer_dimension d;
         load_dim = length (electric_grid_loads d)
     in
     if length (nodes_phase d) \<noteq> node_dim
     then Inl (ValueError (length (nodes_phase d)) node_dim)
     else case electric_grids d of
       [] \<Rightarrow> Inl (KeyError ''0'')
     | grid # _ \<Rightarrow>
     if length (branches_phase d) \<noteq> branch_dim
     then Inl (ValueError (length (branches_phase d)) branch_dim)
     else
     let nodes_name = nodes_node_name d;
         nodes_ph = nodes_phase d;
         nodes_type = nodes_node_type d (source_node_name grid);
         branches_name = branches_branch_name d;
         branches_ph = branches_phase d;
         branches_type = branches_branch_type d;
         the_phases = [''1'', ''2'', ''3''];
         the_node_names = map node_name (electric_grid_nodes d);
         the_node_types = [''source'', ''no_source''];
         the_line_names = map line_name (electric_grid_lines d);
         the_transformer_names =
           map transformer_name (electric_grid_transformers_one_winding d);
         the_load_names = map load_name (electric_grid_loads d)
     in Inr \<lparr>
       node_dimension = node_dim,
       branch_dimension = branch_dim,
       load_dimension = load_dim,
       phases = the_phases,
       node_names = the_node_names,
       node_types = the_node_types,
       nodes_phases = zip nodes_name nodes_ph,
       line_names = the_line_names,
       transformer_names = the_transformer_names,
       branch_names = branches_name,
       branch_types = [''line'', ''transformer''],
       branches_phases = zip branches_name (zip branches_ph branches_type),
       load_names = the_load_names,
       node_by_node_name =
         assign_positions (\<lambda>name. nonzero (map (\<lambda>n. n = name) nodes_name))
           the_node_names (fromkeys the_node_names),
       node_by_phase =
         assign_positions (\<lambda>phase. nonzero (map (\<lambda>p. p = phase) nodes_ph))
           the_phases (fromkeys the_phases),
       node_by_node_type =
         assign_positions (\<lambda>type. nonzero (map (\<lambda>t. t = type) nodes_type))
           the_node_types (fromkeys the_node_types),
       node_by_load_name =
         fold (\<lambda>l m. m(load_name l \<mapsto> Some (nonzero
                 (map (\<lambda>(n, p). n = load_node_name l \<and> p \<in> set (load_phases l))
                    (zip nodes_name nodes_ph)))))
           (electric_grid_loads d) (fromkeys the_load_names),
       branch_by_line_name =
         assign_positions
           (\<lambda>name. nonzero (map (\<lambda>(n, t). n = name \<and> t = ''transformer'')
              (zip branches_name branches_type)))
           the_transformer_names
           (assign_positions
              (\<lambda>name. nonzero (map (\<lambda>(n, t). n = name \<and> t = ''line'')
                 (zip branches_name branches_type)))
              the_line_names (fromkeys the_line_names)),
       branch_by_transformer_name = fromkeys the_transformer_names,
       branch_by_phase =
         assign_positions (\<lambda>phase. nonzero (map (\<lambda>p. p = phase) branches_ph))
           the_phases (fromkeys the_phases),
       load_by_load_name =
         fold (\<lambda>(name, i) m. m(name \<mapsto> i))
           (zip the_load_names [0..<length the_load_names]) Map.empty
     \<rparr>)"

section \<open>Electric grid model\<close>

text \<open>
  A \<open>scipy.sparse.dok_matrix\<close>: its shape and its entries, keyed by (row, column); a key
  that was never written reads as zero.
\<close>

record 'a dok_matrix =
  shape :: "nat \<times> nat"
  entries :: "nat \<times> nat \<Rightarrow> 'a"

definition dok_matrix :: "nat \<times> nat \<Rightarrow> 'a::zero dok_matrix" where
  "dok_matrix sh = \<lparr>shape = sh, entries = (\<lambda>_. 0)\<rparr>"


text \<open>
  \<open>insert_sub_matrix\<close> (source lines 378 to 382): both loops run over a \<open>zip\<close>, which
  stops at the shorter of its two arguments, and each step is \<open>matrix[row, col] += value\<close>.
\<close>

definition add_value :: "nat \<Rightarrow> nat \<times> 'a::plus \<Rightarrow> 'a dok_matrix \<Rightarrow> 'a dok_matrix" where
  "add_value row cv m =
     m\<lparr>entries := (entries m)((row, fst cv) := entries m (row, fst cv) + snd cv)\<rparr>"

definition add_row :: "nat \<times> 'a::plus list \<Rightarrow> nat list \<Rightarrow> 'a dok_matrix \<Rightarrow> 'a dok_matrix" where
  "add_row rv col_indexes m = fold (add_value (fst rv)) (zip col_indexes (snd rv)) m"

definition insert_sub_matrix ::
  "'a::plus dok_matrix \<Rightarrow> 'a list list \<Rightarrow> nat list \<Rightarrow> nat list \<Rightarrow> 'a dok_matrix" where
  "insert_sub_matrix m sub_matrix row_indexes col_indexes =
     fold (\<lambda>rv. add_row rv col_indexes) (zip row_indexes sub_matrix) m"

text \<open>
  The index map of source lines 402 to 412: \<open>[[1, 2, 4], [2, 3, 5], [4, 5, 6]] - 1\<close>, cut
  to its first \<open>n_phases\<close> rows and columns.
\<close>

definition rxc_matrix_full_index :: "nat \<Rightarrow> nat list list" where
  "rxc_matrix_full_index n = map (take n) (take n [[0, 1, 3], [1, 2, 4], [3, 4, 5]])"

text \<open>
  \<open>entries[index]\<close> with a two-dimensional integer index (lines 413 to 415): NumPy raises
  \<open>IndexError\<close> at the first index, in row-major order, that is out of bounds.
\<close>

fun take_entries :: "'a list \<Rightarrow> nat list \<Rightarrow> error + 'a list" where
  "take_entries es [] = Inr []"
| "take_entries es (i # is) =
     (if i < length es
      then (case take_entries es is of Inl e \<Rightarrow> Inl e | Inr vs \<Rightarrow> Inr (es ! i # vs))
      else Inl (IndexError i (length es)))"

fun take_matrix :: "'a list \<Rightarrow> nat list list \<Rightarrow> error + 'a list list" where
  "take_matrix es [] = Inr []"
| "take_matrix es (is # iss) =
     (case take_entries es is of
        Inl e \<Rightarrow> Inl e
      | Inr vs \<Rightarrow> (case take_matrix es iss of Inl e \<Rightarrow> Inl e | Inr vss \<Rightarrow> Inr (vs # vss)))"

text \<open>
  \<open>np.linalg.inv\<close>, in exact arithmetic, for the matrices the construction can pass to it:
  the index map has three rows and columns, so the argument is square of size 0 to 3. The
  inverse is the adjugate divided by the determinant; a zero determinant is NumPy's
  \<open>LinAlgError\<close> (singular matrix), and so is an argument that is not square.
\<close>

fun linalg_inv :: "complex list list \<Rightarrow> error + complex list list" where
  "linalg_inv [] = Inr []"
| "linalg_inv [[a]] = (if a = 0 then Inl LinAlgError else Inr [[1 / a]])"
| "linalg_inv [[a, b], [c, d]] =
     (let det = a * d - b * c
      in if det = 0 then Inl LinAlgError
         else Inr [[d / det, - b / det],
                   [- c / det, a / det]])"
| "linalg_inv [[a, b, c], [d, e, f], [g, h, i]] =
     (let det = a * (e * i - f * h) - b * (d * i - f * g) + c * (d * h - e * g)
      in if det = 0 then Inl LinAlgError
         else Inr [[(e * i - f * h) / det, (c * h - b * i) / det, (b * f - c * e) / det],
                   [(f * g - d * i) / det, (a * i - c * g) / det, (c * d - a * f) / det],
                   [(d * h - e * g) / det, (b * g - a * h) / det, (a * e - b * d) / det]])"
| "linalg_inv _ = Inl LinAlgError"

text \<open>
  The fields that \<open>ElectricGridModel.__init__\<close> assigns. The class also annotates
  \<open>electric_grid_data\<close>, \<open>node_voltage_vector_no_load\<close> and
  \<open>load_power_vector_nominal\<close>; the constructor never assigns them.
\<close>

record ElectricGridModel =
  index :: ElectricGridIndex
  node_admittance_matrix :: "complex dok_matrix"
  node_transformation_matrix :: "int dok_matrix"
  branch_admittance_1_matrix :: "complex dok_matrix"
  branch_admittance_2_matrix :: "complex dok_matrix"
  branch_incidence_1_matrix :: "int dok_matrix"
  branch_incidence_2_matrix :: "int dok_matrix"
  load_incidence_wye_matrix :: "real dok_matrix"
  load_incidence_delta_matrix :: "real dok_matrix"

text \<open>The matrices allocated at source lines 351 to 374, all empty.\<close>

definition allocate_matrices :: "ElectricGridIndex \<Rightarrow> ElectricGridModel" where
  "allocate_matrices idx = \<lparr>
     index = idx,
     node_admittance_matrix = dok_matrix (node_dimension idx, node_dimension idx),
     node_transformation_matrix = dok_matrix (node_dimension idx, node_dimension idx),
     branch_admittance_1_matrix = dok_matrix (branch_dimension idx, node_dimension idx),
     branch_admittance_2_matrix = dok_matrix (branch_dimension idx, node_dimension idx),
     branch_incidence_1_matrix = dok_matrix (branch_dimension idx, node_dimension idx),
     branch_incidence_2_matrix = dok_matrix (branch_dimension idx, node_dimension idx),
     load_incidence_wye_matrix = dok_matrix (node_dimension idx, load_dimension idx),
     load_incidence_delta_matrix = dok_matrix (node_dimension idx, load_dimension idx)
   \<rparr>"

text \<open>The rows of the line type matrices table that carry the line's type (lines 387 to 398).\<close>

definition rxc_matrix_entries ::
  "ElectricGridData \<Rightarrow> electric_grid_line \<Rightarrow> electric_grid_line_types_matrix_entry list" where
  "rxc_matrix_entries d line =
     filter (\<lambda>e. entry_line_type e = line_type line) (electric_grid_line_types_matrices d)"

text \<open>Line series admittance (lines 418 to 423): the inverse of \<open>(R + jX) * length\<close>.\<close>

definition series_admittance_matrix ::
  "real list list \<Rightarrow> real list list \<Rightarrow> real \<Rightarrow> error + complex list list" where
  "series_admittance_matrix r_matrix x_matrix len =
     linalg_inv (map2 (map2 (\<lambda>rv xv.
       (complex_of_real rv + \<i> * complex_of_real xv) * complex_of_real len))
       r_matrix x_matrix)"

definition base_frequency :: real where
  "base_frequency = 60"

text \<open>
  Line shunt admittance (lines 429 to 434):
  \<open>c_matrix * 2 * np.pi * base_frequency * 1e-9 * 0.5j * line['length']\<close>.
\<close>

definition shunt_admittance_matrix :: "real list list \<Rightarrow> real \<Rightarrow> complex list list" where
  "shunt_admittance_matrix c_matrix len =
     map (map (\<lambda>cv.
       complex_of_real (cv * 2 * pi * base_frequency * (1 / 10 ^ 9))
       * (complex_of_real (1 / 2) * \<i>) * complex_of_real len))
       c_matrix"

record line_admittance_matrices =
  admittance_matrix_11 :: "complex list list"
  admittance_matrix_12 :: "complex list list"
  admittance_matrix_21 :: "complex list list"
  admittance_matrix_22 :: "complex list list"

text \<open>The element matrices of one line (lines 386 to 451), or the first exception.\<close>

definition line_element_matrices ::
  "ElectricGridData \<Rightarrow> electric_grid_line \<Rightarrow> error + line_admittance_matrices" where
  "line_element_matrices d line =
    (let es = rxc_matrix_entries d line;
         full_index = rxc_matrix_full_index (n_phases line)
     in case take_matrix (map r_entry es) full_index of
       Inl e \<Rightarrow> Inl e
     | Inr r_matrix \<Rightarrow>
     (case take_matrix (map x_entry es) full_index of
       Inl e \<Rightarrow> Inl e
     | Inr x_matrix \<Rightarrow>
     (case take_matrix (map c_entry es) full_index of
       Inl e \<Rightarrow> Inl e
     | Inr c_matrix \<Rightarrow>
     (case series_admittance_matrix r_matrix x_matrix (line_length line) of
       Inl e \<Rightarrow> Inl e
     | Inr series \<Rightarrow>
       let shunt = shunt_admittance_matrix c_matrix (line_length line)
       in Inr \<lparr>
         admittance_matrix_11 = map2 (map2 (+)) series shunt,
         admittance_matrix_12 = map (map uminus) series,
         admittance_matrix_21 = map (map uminus) series,
         admittance_matrix_22 = map2 (map2 (+)) series shunt
       \<rparr>))))"

text \<open>
  \<open>dictionary[key]\<close> for a position dictionary: a missing key raises \<open>KeyError\<close>; a
  key still mapped to \<open>None\<close> would fail when \<open>zip\<close> iterates over the value.
\<close>

definition lookup_positions :: "position_dict \<Rightarrow> string \<Rightarrow> error + nat list" where
  "lookup_positions m k =
     (case m k of
        None \<Rightarrow> Inl (KeyError k)
      | Some None \<Rightarrow> Inl TypeError
      | Some (Some ps) \<Rightarrow> Inr ps)"

text \<open>\<open>np.identity(n, dtype=np.int).tolist()\<close>.\<close>

definition identity :: "nat \<Rightarrow> int list list" where
  "identity n = map (\<lambda>i. map (\<lambda>j. if i = j then 1 else 0) [0..<n]) [0..<n]"

text \<open>One iteration of the loop over the lines (source lines 385 to 529).\<close>

definition add_line ::
  "ElectricGridData \<Rightarrow> ElectricGridModel \<Rightarrow> electric_grid_line \<Rightarrow> error + ElectricGridModel" where
  "add_line d m line =
    (case line_element_matrices d line of
       Inl e \<Rightarrow> Inl e
     | Inr y \<Rightarrow>
     (case lookup_positions (node_by_node_name (index m)) (node_1_name line) of
       Inl e \<Rightarrow> Inl e
     | Inr node_index_1 \<Rightarrow>
     (case lookup_positions (node_by_node_name (index m)) (node_2_name line) of
       Inl e \<Rightarrow> Inl e
     | Inr node_index_2 \<Rightarrow>
     (case lookup_positions (branch_by_line_name (index m)) (line_name line) of
       Inl e \<Rightarrow> Inl e
     | Inr branch_index \<Rightarrow>
       Inr (m\<lparr>
         node_admittance_matrix :=
           insert_sub_matrix
             (insert_sub_matrix
               (insert_sub_matrix
                 (insert_sub_matrix (node_admittance_matrix m)
                   (admittance_matrix_11 y) node_index_1 node_index_1)
                 (admittance_matrix_12 y) node_index_1 node_index_2)
               (admittance_matrix_21 y) node_index_2 node_index_1)
             (admittance_matrix_22 y) node_index_2 node_index_2,
         branch_admittance_1_matrix :=
           insert_sub_matrix
             (insert_sub_matrix (branch_admittance_1_matrix m)
               (admittance_matrix_11 y) branch_index node_index_1)
             (admittance_matrix_12 y) branch_index node_index_2,
         branch_admittance_2_matrix :=
           insert_sub_matrix
             (insert_sub_matrix (branch_admittance_2_matrix m)
               (admittance_matrix_21 y) branch_index node_index_1)
             (admittance_matrix_22 y) branch_index node_index_2,
         branch_incidence_1_matrix :=
           insert_sub_matrix (branch_incidence_1_matrix m)
             (identity (length branch_index)) branch_index node_index_1,
         branch_incidence_2_matrix :=
           insert_sub_matrix (branch_incidence_2_matrix m)
             (identity (length branch_index)) branch_index node_index_2
       \<rparr>)))))"

text \<open>The loop over the lines, in table order; the first exception ends the construction.\<close>

fun add_lines ::
  "ElectricGridData \<Rightarrow> ElectricGridModel \<Rightarrow> electric_grid_line list \<Rightarrow> error + ElectricGridModel"
where
  "add_lines d m [] = Inr m"
| "add_lines d m (line # lines) =
     (case add_line d m line of
        Inl e \<Rightarrow> Inl e
      | Inr m' \<Rightarrow> add_lines d m' lines)"

text \<open>\<open>ElectricGridModel.__init__\<close>.\<close>

definition ElectricGridModel_init :: "ElectricGridData \<Rightarrow> error + ElectricGridModel" where
  "ElectricGridModel_init d =
     (case ElectricGridIndex_init d of
        Inl e \<Rightarrow> Inl e
      | Inr idx \<Rightarrow> add_lines d (allocate_matrices idx) (electric_grid_lines d))"


text \<open>
  A line can be built when its element matrices are computed without an exception and both
  of its end nodes are in the nodes table.
\<close>

definition line_buildable :: "ElectricGridData \<Rightarrow> electric_grid_line \<Rightarrow> bool" where
  "line_buildable d line =
     (\<not> isl (line_element_matrices d line)
      \<and> node_1_name line \<in> set (map node_name (electric_grid_nodes d))
      \<and> node_2_name line \<in> set (map node_name (electric_grid_nodes d)))"

section \<open>What an insertion adds\<close>

text \<open>
  The value that \<open>insert_sub_matrix\<close> adds to the entry at position \<open>p\<close>: the sum of the
  values of the sub-matrix that the two \<open>zip\<close>s pair with this position.
\<close>

definition sub_matrix_sum ::
  "'a::comm_monoid_add list list \<Rightarrow> nat list \<Rightarrow> nat list \<Rightarrow> nat \<times> nat \<Rightarrow> 'a" where
  "sub_matrix_sum sub_matrix row_indexes col_indexes p =
     sum_list (map (\<lambda>rv.
        sum_list (map (\<lambda>cv. if p = (fst rv, fst cv) then snd cv else 0)
          (zip col_indexes (snd rv))))
       (zip row_indexes sub_matrix))"

text \<open>
  The value that one line adds to the nodal admittance matrix at position \<open>p\<close> (source
  lines 466 to 489), from its element matrices and the positions of its two end nodes.
\<close>

definition line_contribution ::
  "line_admittance_matrices \<Rightarrow> nat list \<Rightarrow> nat list \<Rightarrow> nat \<times> nat \<Rightarrow> complex" where
  "line_contribution y node_index_1 node_index_2 p =
     sub_matrix_sum (admittance_matrix_11 y) node_index_1 node_index_1 p
     + sub_matrix_sum (admittance_matrix_12 y) node_index_1 node_index_2 p
     + sub_matrix_sum (admittance_matrix_21 y) node_index_2 node_index_1 p
     + sub_matrix_sum (admittance_matrix_22 y) node_index_2 node_index_2 p"


section \<open>Example grids\<close>

definition node_row :: "string \<Rightarrow> nat \<Rightarrow> nat \<Rightarrow> nat \<Rightarrow> electric_grid_node" where
  "node_row name p1 p2 p3 =
     \<lparr>is_phase_1_connected = p1, is_phase_2_connected = p2, is_phase_3_connected = p3,
      node_name = name\<rparr>"

definition line_row ::
  "string \<Rightarrow> string \<Rightarrow> string \<Rightarrow> string \<Rightarrow> nat \<Rightarrow> nat \<Rightarrow> nat \<Rightarrow> nat \<Rightarrow> electric_grid_line" where
  "line_row name type n1 n2 p1 p2 p3 n =
     \<lparr>is_phase_1_connected = p1, is_phase_2_connected = p2, is_phase_3_connected = p3,
      line_name = name, line_type = type, node_1_name = n1, node_2_name = n2,
      n_phases = n, line_length = 1\<rparr>"

definition transformer_row :: "string \<Rightarrow> nat \<Rightarrow> nat \<Rightarrow> nat \<Rightarrow> nat \<Rightarrow> electric_grid_transformer" where
  "transformer_row name w p1 p2 p3 =
     \<lparr>is_phase_1_connected = p1, is_phase_2_connected = p2, is_phase_3_connected = p3,
      transformer_name = name, winding = w\<rparr>"

definition load_row :: "string \<Rightarrow> string \<Rightarrow> nat \<Rightarrow> nat \<Rightarrow> nat \<Rightarrow> electric_grid_load" where
  "load_row name node p1 p2 p3 =
     \<lparr>is_phase_1_connected = p1, is_phase_2_connected = p2, is_phase_3_connected = p3,
      load_name = name, load_node_name = node\<rparr>"

text \<open>The rows of a line type whose \<open>r\<close> and \<open>x\<close> entries are the given values and whose \<open>c\<close> is 0.\<close>

definition type_rows :: "string \<Rightarrow> real list \<Rightarrow> electric_grid_line_types_matrix_entry list" where
  "type_rows type vs =
     map (\<lambda>v. \<lparr>entry_line_type = type, r_entry = v, x_entry = v, c_entry = 0\<rparr>) vs"









text \<open>
  Nodes \<open>A\<close> and \<open>B\<close> with phases 1 and 3, node \<open>C\<close> with all three; a line from \<open>A\<close> to
  \<open>B\<close> on phases 1 and 3; a three-phase transformer \<open>T1\<close>; a load on \<open>B\<close>.
\<close>

definition grid_mixed :: ElectricGridData where
  "grid_mixed =
     \<lparr>electric_grids = [\<lparr>source_node_name = ''A''\<rparr>],
      electric_grid_nodes =
        [node_row ''A'' 1 0 1, node_row ''B'' 1 0 1, node_row ''C'' 1 1 1],
      electric_grid_lines = [line_row ''L1'' ''T'' ''A'' ''B'' 1 0 1 2],
      electric_grid_line_types_matrices = type_rows ''T'' [1, 0, 1, 0, 0, 1],
      electric_grid_transformers =
        [transformer_row ''T1'' 1 1 1 1, transformer_row ''T1'' 2 1 1 1],
      electric_grid_loads = [load_row ''LD1'' ''B'' 1 0 1]\<rparr>"

section \<open>The index: fields and checks\<close>

lemma index_init_fields:
  assumes "ElectricGridIndex_init d = Inr idx"
  shows "node_dimension idx = phase_sum (electric_grid_nodes d)"
    and "branch_dimension idx = line_dimension d + transformer_dimension d"
    and "load_dimension idx = length (electric_grid_loads d)"
    and "node_names idx = map node_name (electric_grid_nodes d)"
    and "nodes_phases idx = zip (nodes_node_name d) (nodes_phase d)"
    and "branches_phases idx =
           zip (branches_branch_name d) (zip (branches_phase d) (branches_branch_type d))"
    and "node_by_node_name idx =
           assign_positions (\<lambda>name. nonzero (map (\<lambda>n. n = name) (nodes_node_name d)))
             (map node_name (electric_grid_nodes d))
             (fromkeys (map node_name (electric_grid_nodes d)))"
    and "node_by_phase idx =
           assign_positions (\<lambda>phase. nonzero (map (\<lambda>p. p = phase) (nodes_phase d)))
             [''1'', ''2'', ''3''] (fromkeys [''1'', ''2'', ''3''])"
    and "branch_by_line_name idx =
           assign_positions
             (\<lambda>name. nonzero (map (\<lambda>(n, t). n = name \<and> t = ''transformer'')
                (zip (branches_branch_name d) (branches_branch_type d))))
             (map transformer_name (electric_grid_transformers_one_winding d))
             (assign_positions
                (\<lambda>name. nonzero (map (\<lambda>(n, t). n = name \<and> t = ''line'')
                   (zip (branches_branch_name d) (branches_branch_type d))))
                (map line_name (electric_grid_lines d))
                (fromkeys (map line_name (electric_grid_lines d))))"
    and "branch_by_transformer_name idx =
           fromkeys (map transformer_name (electric_grid_transformers_one_winding d))"
  using assms
  by (auto simp: ElectricGridIndex_init_def Let_def split: if_splits list.splits)

lemma index_init_checks:
  assumes "ElectricGridIndex_init d = Inr idx"
  shows "length (nodes_phase d) = phase_sum (electric_grid_nodes d)"
    and "electric_grids d \<noteq> []"
    and "length (branches_phase d) = line_dimension d + transformer_dimension d"
  using assms
  by (auto simp: ElectricGridIndex_init_def Let_def split: if_splits list.splits)

lemma index_init_succeeds:
  assumes "length (nodes_phase d) = phase_sum (electric_grid_nodes d)"
    and "electric_grids d \<noteq> []"
    and "length (branches_phase d) = line_dimension d + transformer_dimension d"
  shows "\<exists>idx. ElectricGridIndex_init d = Inr idx"
  using assms
  by (auto simp: ElectricGridIndex_init_def Let_def split: if_splits list.splits)

lemmas row_defs = node_row_def line_row_def transformer_row_def load_row_def type_rows_def

lemmas column_defs = nodes_node_name_def nodes_phase_def branches_branch_name_def
  branches_phase_def branches_branch_type_def loc_connected_def count_connected_def
  phase_sum_def line_dimension_def transformer_dimension_def
  electric_grid_transformers_one_winding_def

section \<open>The transformer lookup\<close>



section \<open>Positions in the flattened tables\<close>

lemma nonzero_append:
  "nonzero (xs @ ys) = nonzero xs @ map (\<lambda>i. i + length xs) (nonzero ys)"
proof -
  have "[0..<length xs + length ys] = [0..<length xs] @ [length xs..<length xs + length ys]"
    using upt_add_eq_append[of 0 "length xs" "length ys"] by simp
  moreover have "[length xs..<length xs + length ys] = map (\<lambda>i. i + length xs) [0..<length ys]"
    using map_add_upt[of "length xs" "length ys"] by (simp only: add.commute)
  ultimately have split: "[0..<length (xs @ ys)]
      = [0..<length xs] @ map (\<lambda>i. i + length xs) [0..<length ys]"
    by (simp only: length_append)
  have a: "filter (\<lambda>i. (xs @ ys) ! i) [0..<length xs] = filter (\<lambda>i. xs ! i) [0..<length xs]"
    by (rule filter_cong) (simp_all add: nth_append)
  have b: "filter (\<lambda>i. (xs @ ys) ! i) (map (\<lambda>i. i + length xs) [0..<length ys])
           = map (\<lambda>i. i + length xs) (filter (\<lambda>i. ys ! i) [0..<length ys])"
    by (simp add: filter_map comp_def nth_append)
  show ?thesis
    unfolding nonzero_def split filter_append a b ..
qed

lemma nonzero_replicate_True: "nonzero (replicate n True) = [0..<n]"
  unfolding nonzero_def by (simp add: filter_id_conv)

lemma nonzero_replicate_False: "nonzero (replicate n False) = []"
  unfolding nonzero_def by (simp add: filter_empty_conv)

lemma count_le_sum: "count_connected f rows \<le> sum_list (map f rows)"
  unfolding count_connected_def by (induction rows) auto

lemma length_loc_connected: "length (loc_connected f name rows) = count_connected f rows"
  by (simp add: loc_connected_def count_connected_def)

lemma zip_replicate_const: "zip xs (replicate (length xs) v) = map (\<lambda>x. (x, v)) xs"
  by (induction xs) auto

lemma length_nodes_columns: "length (nodes_node_name d) = length (nodes_phase d)"
  by (simp add: nodes_node_name_def nodes_phase_def length_loc_connected)

lemma mixed_index: "\<exists>idx. ElectricGridIndex_init grid_mixed = Inr idx"
  by (rule index_init_succeeds) (simp_all add: grid_mixed_def row_defs column_defs)

text \<open>
  Claim C8: for every grid data, the \<open>node_dimension\<close> that \<open>ElectricGridIndex\<close> computes is
  the sum over all nodes of their three connected-phase flags, and it is the number of rows
  of the flattened node table (the table whose rows \<open>nodes_phases\<close> lists and from which the
  position lookups are built). The index that the constructor returns has both properties;
  a nodes table with a flag other than 0 or 1 does not get that far, since the phase
  column then has another length than the frame.
\<close>

theorem C8_node_dimension:
  assumes "ElectricGridIndex_init d = Inr idx"
  shows "node_dimension idx
         = (\<Sum>n\<leftarrow>electric_grid_nodes d.
              is_phase_1_connected n + is_phase_2_connected n + is_phase_3_connected n)
       \<and> node_dimension idx = length (nodes_phases idx)"
proof -
  have "node_dimension idx = phase_sum (electric_grid_nodes d)"
    by (rule index_init_fields(1)[OF assms])
  moreover have "phase_sum (electric_grid_nodes d)
    = (\<Sum>n\<leftarrow>electric_grid_nodes d.
              is_phase_1_connected n + is_phase_2_connected n + is_phase_3_connected n)"
    by (simp add: phase_sum_def sum_list_addf)
  moreover have "length (nodes_phases idx) = phase_sum (electric_grid_nodes d)"
    using index_init_fields(5)[OF assms] index_init_checks(1)[OF assms]
    by (simp add: length_nodes_columns)
  ultimately show ?thesis by simp
qed

theorem C8_node_dimension_witness:
  "ElectricGridIndex_init grid_mixed = Inr (projr (ElectricGridIndex_init grid_mixed))
   \<and> node_dimension (projr (ElectricGridIndex_init grid_mixed)) = 7
   \<and> length (nodes_phases (projr (ElectricGridIndex_init grid_mixed))) = 7"
proof -
  have h: "ElectricGridIndex_init grid_mixed = Inr (projr (ElectricGridIndex_init grid_mixed))"
    using mixed_index by auto
  have "(\<Sum>n\<leftarrow>electric_grid_nodes grid_mixed.
              is_phase_1_connected n + is_phase_2_connected n + is_phase_3_connected n) = 7"
    by (simp add: grid_mixed_def row_defs)
  with C8_node_dimension[OF h] h show ?thesis by simp
qed

section \<open>Order of the flattened tables\<close>

lemma phase_count_le_sum:
  "count_connected is_phase_1_connected rows + count_connected is_phase_2_connected rows
     + count_connected is_phase_3_connected rows \<le> phase_sum rows"
  unfolding phase_sum_def
  using count_le_sum[of is_phase_1_connected rows] count_le_sum[of is_phase_2_connected rows]
    count_le_sum[of is_phase_3_connected rows]
  by linarith

lemma nodes_phases_rows:
  "zip (nodes_node_name d) (nodes_phase d)
   = map (\<lambda>n. (n, ''1'')) (loc_connected is_phase_1_connected node_name (electric_grid_nodes d))
     @ map (\<lambda>n. (n, ''2'')) (loc_connected is_phase_2_connected node_name (electric_grid_nodes d))
     @ map (\<lambda>n. (n, ''3'')) (loc_connected is_phase_3_connected node_name (electric_grid_nodes d))"
  unfolding nodes_node_name_def nodes_phase_def
  by (simp add: length_loc_connected zip_replicate_const[symmetric])

lemma map_add_shift: "map (\<lambda>i. i + k) [a..<b] = [a + k..<b + k]"
  by (rule nth_equalityI) (auto simp: add.commute)

lemma node_by_phase_ranges:
  fixes n1 n2 n3 :: nat
  defines "col \<equiv> replicate n1 ''1'' @ replicate n2 ''2'' @ replicate n3 ''3''"
  shows "nonzero (map (\<lambda>p. p = ''1'') col) = [0..<n1]"
    and "nonzero (map (\<lambda>p. p = ''2'') col) = [n1..<n1 + n2]"
    and "nonzero (map (\<lambda>p. p = ''3'') col) = [n1 + n2..<n1 + n2 + n3]"
  unfolding col_def
  by (simp_all add: nonzero_append nonzero_replicate_True nonzero_replicate_False
      map_add_shift add.commute add.left_commute del: upt.simps)


lemma branches_rows:
  assumes "line_dimension d = count_connected is_phase_1_connected (electric_grid_lines d)
             + count_connected is_phase_2_connected (electric_grid_lines d)
             + count_connected is_phase_3_connected (electric_grid_lines d)"
    and "transformer_dimension d
           = count_connected is_phase_1_connected (electric_grid_transformers_one_winding d)
             + count_connected is_phase_2_connected (electric_grid_transformers_one_winding d)
             + count_connected is_phase_3_connected (electric_grid_transformers_one_winding d)"
  shows "zip (branches_branch_name d) (zip (branches_phase d) (branches_branch_type d))
   = map (\<lambda>n. (n, ''1'', ''line''))
       (loc_connected is_phase_1_connected line_name (electric_grid_lines d))
     @ map (\<lambda>n. (n, ''2'', ''line''))
       (loc_connected is_phase_2_connected line_name (electric_grid_lines d))
     @ map (\<lambda>n. (n, ''3'', ''line''))
       (loc_connected is_phase_3_connected line_name (electric_grid_lines d))
     @ map (\<lambda>n. (n, ''1'', ''transformer''))
       (loc_connected is_phase_1_connected transformer_name
          (electric_grid_transformers_one_winding d))
     @ map (\<lambda>n. (n, ''2'', ''transformer''))
       (loc_connected is_phase_2_connected transformer_name
          (electric_grid_transformers_one_winding d))
     @ map (\<lambda>n. (n, ''3'', ''transformer''))
       (loc_connected is_phase_3_connected transformer_name
          (electric_grid_transformers_one_winding d))"
  unfolding branches_branch_name_def branches_phase_def branches_branch_type_def assms
  by (simp add: replicate_add length_loc_connected zip_replicate_const[symmetric])

lemma branch_dimensions_exact:
  assumes "ElectricGridIndex_init d = Inr idx"
  shows "line_dimension d = count_connected is_phase_1_connected (electric_grid_lines d)
             + count_connected is_phase_2_connected (electric_grid_lines d)
             + count_connected is_phase_3_connected (electric_grid_lines d)"
    and "transformer_dimension d
           = count_connected is_phase_1_connected (electric_grid_transformers_one_winding d)
             + count_connected is_phase_2_connected (electric_grid_transformers_one_winding d)
             + count_connected is_phase_3_connected (electric_grid_transformers_one_winding d)"
  using index_init_checks(3)[OF assms]
    phase_count_le_sum[of "electric_grid_lines d"]
    phase_count_le_sum[of "electric_grid_transformers_one_winding d"]
  by (simp_all add: branches_phase_def line_dimension_def transformer_dimension_def)

lemma assign_positions_in:
  "k \<in> set keys \<Longrightarrow> assign_positions f keys m k = Some (Some (f k))"
  unfolding assign_positions_def
  by (induction keys arbitrary: m rule: rev_induct) auto

text \<open>
  Claim C7: in the flattened node table every phase-1 row precedes every phase-2 row, which
  precedes every phase-3 row, so that the \<open>node_by_phase\<close> position lists are the
  consecutive ranges that cover \<open>0..node_dimension - 1\<close>; in the flattened branch table all
  line rows, in the same per-phase order, precede all rows of the one-winding transformers.
  The theorem gives the two tables row by row and the three position lists as intervals.
\<close>

theorem C7_phase_order:
  assumes "ElectricGridIndex_init d = Inr idx"
  shows "nodes_phases idx
     = map (\<lambda>n. (n, ''1''))
         (loc_connected is_phase_1_connected node_name (electric_grid_nodes d))
       @ map (\<lambda>n. (n, ''2''))
         (loc_connected is_phase_2_connected node_name (electric_grid_nodes d))
       @ map (\<lambda>n. (n, ''3''))
         (loc_connected is_phase_3_connected node_name (electric_grid_nodes d))
   \<and> node_by_phase idx ''1''
     = Some (Some [0..<count_connected is_phase_1_connected (electric_grid_nodes d)])
   \<and> node_by_phase idx ''2''
     = Some (Some [count_connected is_phase_1_connected (electric_grid_nodes d)
          ..<count_connected is_phase_1_connected (electric_grid_nodes d)
             + count_connected is_phase_2_connected (electric_grid_nodes d)])
   \<and> node_by_phase idx ''3''
     = Some (Some [count_connected is_phase_1_connected (electric_grid_nodes d)
             + count_connected is_phase_2_connected (electric_grid_nodes d)
          ..<count_connected is_phase_1_connected (electric_grid_nodes d)
             + count_connected is_phase_2_connected (electric_grid_nodes d)
             + count_connected is_phase_3_connected (electric_grid_nodes d)])
   \<and> count_connected is_phase_1_connected (electric_grid_nodes d)
       + count_connected is_phase_2_connected (electric_grid_nodes d)
       + count_connected is_phase_3_connected (electric_grid_nodes d) = node_dimension idx
   \<and> branches_phases idx
     = map (\<lambda>n. (n, ''1'', ''line''))
         (loc_connected is_phase_1_connected line_name (electric_grid_lines d))
       @ map (\<lambda>n. (n, ''2'', ''line''))
         (loc_connected is_phase_2_connected line_name (electric_grid_lines d))
       @ map (\<lambda>n. (n, ''3'', ''line''))
         (loc_connected is_phase_3_connected line_name (electric_grid_lines d))
       @ map (\<lambda>n. (n, ''1'', ''transformer''))
         (loc_connected is_phase_1_connected transformer_name
            (electric_grid_transformers_one_winding d))
       @ map (\<lambda>n. (n, ''2'', ''transformer''))
         (loc_connected is_phase_2_connected transformer_name
            (electric_grid_transformers_one_winding d))
       @ map (\<lambda>n. (n, ''3'', ''transformer''))
         (loc_connected is_phase_3_connected transformer_name
            (electric_grid_transformers_one_winding d))"
proof -
  have rows: "nodes_phases idx = zip (nodes_node_name d) (nodes_phase d)"
    by (rule index_init_fields(5)[OF assms])
  have by_phase: "node_by_phase idx =
      assign_positions (\<lambda>phase. nonzero (map (\<lambda>p. p = phase) (nodes_phase d)))
        [''1'', ''2'', ''3''] (fromkeys [''1'', ''2'', ''3''])"
    by (rule index_init_fields(8)[OF assms])
  have p1: "node_by_phase idx ''1''
     = Some (Some [0..<count_connected is_phase_1_connected (electric_grid_nodes d)])"
    unfolding by_phase
    by (simp add: assign_positions_in nodes_phase_def node_by_phase_ranges(1) del: map_append map_replicate)
  have p2: "node_by_phase idx ''2''
     = Some (Some [count_connected is_phase_1_connected (electric_grid_nodes d)
          ..<count_connected is_phase_1_connected (electric_grid_nodes d)
             + count_connected is_phase_2_connected (electric_grid_nodes d)])"
    unfolding by_phase
    by (simp add: assign_positions_in nodes_phase_def node_by_phase_ranges(2) del: map_append map_replicate)
  have p3: "node_by_phase idx ''3''
     = Some (Some [count_connected is_phase_1_connected (electric_grid_nodes d)
             + count_connected is_phase_2_connected (electric_grid_nodes d)
          ..<count_connected is_phase_1_connected (electric_grid_nodes d)
             + count_connected is_phase_2_connected (electric_grid_nodes d)
             + count_connected is_phase_3_connected (electric_grid_nodes d)])"
    unfolding by_phase
    by (simp add: assign_positions_in nodes_phase_def node_by_phase_ranges(3) del: map_append map_replicate)
  have dim: "count_connected is_phase_1_connected (electric_grid_nodes d)
       + count_connected is_phase_2_connected (electric_grid_nodes d)
       + count_connected is_phase_3_connected (electric_grid_nodes d) = node_dimension idx"
    using index_init_checks(1)[OF assms] index_init_fields(1)[OF assms]
    by (simp add: nodes_phase_def)
  have branches: "branches_phases idx =
      zip (branches_branch_name d) (zip (branches_phase d) (branches_branch_type d))"
    by (rule index_init_fields(6)[OF assms])
  show ?thesis
    unfolding rows nodes_phases_rows branches
      branches_rows[OF branch_dimensions_exact[OF assms]]
    using p1 p2 p3 dim by simp
qed


theorem C7_phase_order_witness:
  "ElectricGridIndex_init grid_mixed = Inr (projr (ElectricGridIndex_init grid_mixed))
   \<and> nodes_phases (projr (ElectricGridIndex_init grid_mixed))
     = [(''A'', ''1''), (''B'', ''1''), (''C'', ''1''), (''C'', ''2''),
        (''A'', ''3''), (''B'', ''3''), (''C'', ''3'')]
   \<and> node_by_phase (projr (ElectricGridIndex_init grid_mixed)) ''1'' = Some (Some [0, 1, 2])
   \<and> node_by_phase (projr (ElectricGridIndex_init grid_mixed)) ''2'' = Some (Some [3])
   \<and> node_by_phase (projr (ElectricGridIndex_init grid_mixed)) ''3'' = Some (Some [4, 5, 6])
   \<and> node_dimension (projr (ElectricGridIndex_init grid_mixed)) = 7
   \<and> branches_phases (projr (ElectricGridIndex_init grid_mixed))
     = [(''L1'', ''1'', ''line''), (''L1'', ''3'', ''line''),
        (''T1'', ''1'', ''transformer''), (''T1'', ''2'', ''transformer''),
        (''T1'', ''3'', ''transformer'')]"
proof -
  have h: "ElectricGridIndex_init grid_mixed = Inr (projr (ElectricGridIndex_init grid_mixed))"
    using mixed_index by auto
  have counts:
    "count_connected is_phase_1_connected (electric_grid_nodes grid_mixed) = 3"
    "count_connected is_phase_2_connected (electric_grid_nodes grid_mixed) = 1"
    "count_connected is_phase_3_connected (electric_grid_nodes grid_mixed) = 3"
    by (simp_all add: grid_mixed_def row_defs count_connected_def)
  have rows:
    "loc_connected is_phase_1_connected node_name (electric_grid_nodes grid_mixed)
       = [''A'', ''B'', ''C'']"
    "loc_connected is_phase_2_connected node_name (electric_grid_nodes grid_mixed) = [''C'']"
    "loc_connected is_phase_3_connected node_name (electric_grid_nodes grid_mixed)
       = [''A'', ''B'', ''C'']"
    "loc_connected is_phase_1_connected line_name (electric_grid_lines grid_mixed) = [''L1'']"
    "loc_connected is_phase_2_connected line_name (electric_grid_lines grid_mixed) = []"
    "loc_connected is_phase_3_connected line_name (electric_grid_lines grid_mixed) = [''L1'']"
    "loc_connected is_phase_1_connected transformer_name
       (electric_grid_transformers_one_winding grid_mixed) = [''T1'']"
    "loc_connected is_phase_2_connected transformer_name
       (electric_grid_transformers_one_winding grid_mixed) = [''T1'']"
    "loc_connected is_phase_3_connected transformer_name
       (electric_grid_transformers_one_winding grid_mixed) = [''T1'']"
    by (simp_all add: grid_mixed_def row_defs loc_connected_def
        electric_grid_transformers_one_winding_def)
  have ranges: "[0..<3] = [0, 1, 2::nat]" "[3..<3 + 1] = [3::nat]"
    "[3 + 1..<3 + 1 + 3] = [4, 5, 6::nat]"
    by (simp_all add: upt_rec)
  show ?thesis
    using C7_phase_order[OF h] h unfolding counts rows ranges by simp
qed

section \<open>Inserting a sub-matrix\<close>

lemma add_value_entries:
  fixes m :: "'a::comm_monoid_add dok_matrix"
  shows "entries (add_value row cv m) p
         = entries m p + (if p = (row, fst cv) then snd cv else 0)"
  by (simp add: add_value_def)

lemma fold_add_value_entries:
  fixes m :: "'a::comm_monoid_add dok_matrix"
  shows "entries (fold (add_value row) cvs m) p
         = entries m p + sum_list (map (\<lambda>cv. if p = (row, fst cv) then snd cv else 0) cvs)"
proof (induction cvs arbitrary: m)
  case Nil
  then show ?case by simp
next
  case (Cons cv cvs)
  show ?case
    by (simp only: fold_simps Cons.IH add_value_entries list.map sum_list.Cons add.assoc)
qed

lemma insert_sub_matrix_entries:
  fixes m :: "'a::comm_monoid_add dok_matrix"
  shows "entries (insert_sub_matrix m sub_matrix row_indexes col_indexes) p
         = entries m p + sub_matrix_sum sub_matrix row_indexes col_indexes p"
proof -
  have main: "entries (fold (\<lambda>rv. fold (add_value (fst rv)) (zip col_indexes (snd rv))) rvs m) p
        = entries m p + sum_list (map (\<lambda>rv.
            sum_list (map (\<lambda>cv. if p = (fst rv, fst cv) then snd cv else 0)
              (zip col_indexes (snd rv)))) rvs)" for rvs
  proof (induction rvs arbitrary: m)
    case Nil
    then show ?case by simp
  next
    case (Cons rv rvs)
    show ?case
      by (simp add: Cons.IH fold_add_value_entries add.assoc)
  qed
  have ar: "(\<lambda>rv. add_row rv col_indexes)
      = (\<lambda>rv. fold (add_value (fst rv)) (zip col_indexes (snd rv)))"
    by (simp add: fun_eq_iff add_row_def)
  show ?thesis
    unfolding insert_sub_matrix_def sub_matrix_sum_def ar by (rule main)
qed

lemma insert_sub_matrix_shape:
  "shape (insert_sub_matrix m sub_matrix row_indexes col_indexes) = shape m"
proof -
  have a: "shape (fold (add_value row) cvs m) = shape m" for row cvs and m :: "'a dok_matrix"
    by (induction cvs arbitrary: m) (simp_all add: add_value_def)
  have "shape (fold (\<lambda>rv. add_row rv col_indexes) rvs m) = shape m" for rvs
    by (induction rvs arbitrary: m) (simp_all add: add_row_def a)
  then show ?thesis by (simp add: insert_sub_matrix_def)
qed




section \<open>The loop over the lines\<close>

lemma fromkeys_apply: "fromkeys keys k = (if k \<in> set keys then Some None else None)"
  unfolding fromkeys_def
  by (induction keys rule: rev_induct) auto

lemma assign_positions_notin:
  "k \<notin> set keys \<Longrightarrow> assign_positions f keys m k = m k"
  unfolding assign_positions_def
  by (induction keys arbitrary: m rule: rev_induct) auto

lemma assign_positions_keeps_list:
  assumes "m k = Some (Some ps)"
  shows "\<exists>ps'. assign_positions f keys m k = Some (Some ps')"
  using assms assign_positions_in[of k keys f m] assign_positions_notin[of k keys f m]
  by (cases "k \<in> set keys") auto

lemma node_lookup:
  assumes "ElectricGridIndex_init d = Inr idx"
  shows "lookup_positions (node_by_node_name idx) k
         = (if k \<in> set (map node_name (electric_grid_nodes d))
            then Inr (nonzero (map (\<lambda>n. n = k) (nodes_node_name d)))
            else Inl (KeyError k))"
  unfolding lookup_positions_def index_init_fields(7)[OF assms]
  by (simp add: assign_positions_in assign_positions_notin fromkeys_apply)

lemma branch_lookup:
  assumes "ElectricGridIndex_init d = Inr idx" and "l \<in> set (electric_grid_lines d)"
  shows "\<exists>b. lookup_positions (branch_by_line_name idx) (line_name l) = Inr b"
proof -
  have "line_name l \<in> set (map line_name (electric_grid_lines d))"
    using assms(2) by simp
  then obtain ps where "branch_by_line_name idx (line_name l) = Some (Some ps)"
    unfolding index_init_fields(9)[OF assms(1)]
    using assign_positions_keeps_list assign_positions_in by meson
  then show ?thesis by (simp add: lookup_positions_def)
qed

lemma add_line_effect:
  assumes "add_line d m l = Inr m'"
  shows "\<exists>y n1 n2.
           line_element_matrices d l = Inr y
           \<and> lookup_positions (node_by_node_name (index m)) (node_1_name l) = Inr n1
           \<and> lookup_positions (node_by_node_name (index m)) (node_2_name l) = Inr n2
           \<and> (\<forall>p. entries (node_admittance_matrix m') p
                 = entries (node_admittance_matrix m) p + line_contribution y n1 n2 p)"
    and "index m' = index m"
    and "load_incidence_wye_matrix m' = load_incidence_wye_matrix m"
    and "load_incidence_delta_matrix m' = load_incidence_delta_matrix m"
    and "shape (node_admittance_matrix m') = shape (node_admittance_matrix m)"
  using assms unfolding add_line_def
  by (auto split: sum.splits
      simp: insert_sub_matrix_entries insert_sub_matrix_shape line_contribution_def add.assoc)


lemma add_line_completes_iff:
  assumes "ElectricGridIndex_init d = Inr idx" and "index m = idx"
    and "l \<in> set (electric_grid_lines d)"
  shows "(\<not> isl (add_line d m l)) = line_buildable d l"
proof -
  obtain b where b: "lookup_positions (branch_by_line_name idx) (line_name l) = Inr b"
    using branch_lookup[OF assms(1,3)] by auto
  show ?thesis
    unfolding add_line_def line_buildable_def
    by (cases "line_element_matrices d l")
      (simp_all add: assms(2) node_lookup[OF assms(1)] b)
qed

lemma add_lines_frame:
  assumes "add_lines d m ls = Inr m'"
  shows "index m' = index m"
    and "load_incidence_wye_matrix m' = load_incidence_wye_matrix m"
    and "load_incidence_delta_matrix m' = load_incidence_delta_matrix m"
    and "shape (node_admittance_matrix m') = shape (node_admittance_matrix m)"
  using assms
  by (induction ls arbitrary: m) (auto split: sum.splits dest: add_line_effect(2-5))

lemma add_lines_completes_iff:
  assumes "ElectricGridIndex_init d = Inr idx" and "index m = idx"
    and "set ls \<subseteq> set (electric_grid_lines d)"
  shows "(\<not> isl (add_lines d m ls)) = list_all (line_buildable d) ls"
  using assms(2,3)
proof (induction ls arbitrary: m)
  case Nil
  then show ?case by simp
next
  case (Cons l ls)
  have l: "l \<in> set (electric_grid_lines d)" and ls: "set ls \<subseteq> set (electric_grid_lines d)"
    using Cons.prems(2) by auto
  show ?case
  proof (cases "add_line d m l")
    case (Inl e)
    then have "\<not> line_buildable d l"
      using add_line_completes_iff[OF assms(1) Cons.prems(1) l] by simp
    with Inl show ?thesis by simp
  next
    case (Inr m')
    then have "line_buildable d l"
      using add_line_completes_iff[OF assms(1) Cons.prems(1) l] by simp
    moreover have "index m' = idx"
      using add_line_effect(2)[OF Inr] Cons.prems(1) by simp
    ultimately show ?thesis
      using Inr Cons.IH[OF _ ls, of m'] by simp
  qed
qed

lemma model_init_completes_iff:
  assumes "ElectricGridIndex_init d = Inr idx"
  shows "(\<not> isl (ElectricGridModel_init d)) = list_all (line_buildable d) (electric_grid_lines d)"
  unfolding ElectricGridModel_init_def
  using add_lines_completes_iff[OF assms, of "allocate_matrices idx" "electric_grid_lines d"]
  by (simp add: assms allocate_matrices_def)


section \<open>The two-node example grids\<close>

lemma line_row_fields:
  "line_name (line_row name type n1 n2 p1 p2 p3 n) = name"
  "line_type (line_row name type n1 n2 p1 p2 p3 n) = type"
  "node_1_name (line_row name type n1 n2 p1 p2 p3 n) = n1"
  "node_2_name (line_row name type n1 n2 p1 p2 p3 n) = n2"
  "n_phases (line_row name type n1 n2 p1 p2 p3 n) = n"
  "line_length (line_row name type n1 n2 p1 p2 p3 n) = 1"
  "is_phase_1_connected (line_row name type n1 n2 p1 p2 p3 n) = p1"
  "is_phase_2_connected (line_row name type n1 n2 p1 p2 p3 n) = p2"
  "is_phase_3_connected (line_row name type n1 n2 p1 p2 p3 n) = p3"
  by (simp_all add: line_row_def)














lemma allocate_matrices_fields:
  "index (allocate_matrices idx) = idx"
  "entries (node_admittance_matrix (allocate_matrices idx)) p = 0"
  "shape (node_admittance_matrix (allocate_matrices idx)) = (node_dimension idx, node_dimension idx)"
  "load_incidence_wye_matrix (allocate_matrices idx)
     = dok_matrix (node_dimension idx, load_dimension idx)"
  "load_incidence_delta_matrix (allocate_matrices idx)
     = dok_matrix (node_dimension idx, load_dimension idx)"
  by (simp_all add: allocate_matrices_def dok_matrix_def)



section \<open>The single three-phase line\<close>





section \<open>The load incidence matrices\<close>

lemma model_init_index:
  assumes "ElectricGridModel_init d = Inr m"
  shows "ElectricGridIndex_init d = Inr (index m)"
    and "add_lines d (allocate_matrices (index m)) (electric_grid_lines d) = Inr m"
proof -
  obtain idx where idx: "ElectricGridIndex_init d = Inr idx"
    and run: "add_lines d (allocate_matrices idx) (electric_grid_lines d) = Inr m"
    using assms by (auto simp: ElectricGridModel_init_def split: sum.splits)
  have "index m = idx"
    using add_lines_frame(1)[OF run] by (simp add: allocate_matrices_fields)
  with idx run show "ElectricGridIndex_init d = Inr (index m)"
    and "add_lines d (allocate_matrices (index m)) (electric_grid_lines d) = Inr m"
    by simp_all
qed

lemma not_isl_projr: "\<not> isl v \<Longrightarrow> v = Inr (projr v)"
  by (cases v) auto

lemma mixed_fields:
  "electric_grid_lines grid_mixed = [line_row ''L1'' ''T'' ''A'' ''B'' 1 0 1 2]"
  "electric_grid_line_types_matrices grid_mixed = type_rows ''T'' [1, 0, 1, 0, 0, 1]"
  "map node_name (electric_grid_nodes grid_mixed) = [''A'', ''B'', ''C'']"
  "nodes_node_name grid_mixed = [''A'', ''B'', ''C'', ''C'', ''A'', ''B'', ''C'']"
  "phase_sum (electric_grid_nodes grid_mixed) = 7"
  "length (electric_grid_loads grid_mixed) = 1"
  by (simp_all add: grid_mixed_def node_row_def nodes_node_name_def loc_connected_def
      phase_sum_def)

lemma mixed_line_matrices:
  "line_element_matrices grid_mixed (line_row ''L1'' ''T'' ''A'' ''B'' 1 0 1 2)
   = Inr \<lparr>
       admittance_matrix_11 = [[Complex (1/2) (- (1/2)), 0], [0, Complex (1/2) (- (1/2))]],
       admittance_matrix_12 = [[Complex (- (1/2)) (1/2), 0], [0, Complex (- (1/2)) (1/2)]],
       admittance_matrix_21 = [[Complex (- (1/2)) (1/2), 0], [0, Complex (- (1/2)) (1/2)]],
       admittance_matrix_22 = [[Complex (1/2) (- (1/2)), 0], [0, Complex (1/2) (- (1/2))]]\<rparr>"
  by (simp add: line_element_matrices_def rxc_matrix_entries_def mixed_fields(2)
      type_rows_def line_row_fields rxc_matrix_full_index_def series_admittance_matrix_def
      shunt_admittance_matrix_def complex_eq_iff Re_divide Im_divide power2_eq_square)

lemma mixed_model: "\<not> isl (ElectricGridModel_init grid_mixed)"
proof -
  obtain idx where idx: "ElectricGridIndex_init grid_mixed = Inr idx"
    using mixed_index by blast
  have "line_buildable grid_mixed (line_row ''L1'' ''T'' ''A'' ''B'' 1 0 1 2)"
    unfolding line_buildable_def mixed_line_matrices mixed_fields(3) line_row_fields
    by simp
  then show ?thesis
    unfolding model_init_completes_iff[OF idx] mixed_fields(1) by simp
qed

text \<open>
  Claim C6: when the construction returns, \<open>load_incidence_wye_matrix\<close> and
  \<open>load_incidence_delta_matrix\<close> are entirely zero, whatever the number of loads: they are
  the matrices allocated at source lines 369 to 374, of shape
  \<open>(node_dimension, load_dimension)\<close>, and no later step writes to them.
\<close>

theorem C6_load_incidence_zero:
  assumes "ElectricGridModel_init d = Inr m"
  shows "load_incidence_wye_matrix m
           = dok_matrix (node_dimension (index m), length (electric_grid_loads d))
       \<and> load_incidence_delta_matrix m
           = dok_matrix (node_dimension (index m), length (electric_grid_loads d))
       \<and> entries (load_incidence_wye_matrix m) (row, col) = 0
       \<and> entries (load_incidence_delta_matrix m) (row, col) = 0"
  using add_lines_frame(2,3)[OF model_init_index(2)[OF assms]]
    index_init_fields(3)[OF model_init_index(1)[OF assms]]
  by (simp add: allocate_matrices_fields) (simp add: dok_matrix_def)

theorem C6_load_incidence_zero_witness:
  "ElectricGridModel_init grid_mixed = Inr (projr (ElectricGridModel_init grid_mixed))
   \<and> load_incidence_wye_matrix (projr (ElectricGridModel_init grid_mixed)) = dok_matrix (7, 1)
   \<and> load_incidence_delta_matrix (projr (ElectricGridModel_init grid_mixed)) = dok_matrix (7, 1)
   \<and> entries (load_incidence_wye_matrix (projr (ElectricGridModel_init grid_mixed))) (5, 0) = 0
   \<and> entries (load_incidence_delta_matrix (projr (ElectricGridModel_init grid_mixed))) (5, 0) = 0"
proof -
  have h: "ElectricGridModel_init grid_mixed = Inr (projr (ElectricGridModel_init grid_mixed))"
    by (rule not_isl_projr[OF mixed_model])
  have "node_dimension (index (projr (ElectricGridModel_init grid_mixed))) = 7"
    using index_init_fields(1)[OF model_init_index(1)[OF h]] by (simp add: mixed_fields(5))
  with C6_load_incidence_zero[OF h, of 5 0] h show ?thesis
    by (simp add: mixed_fields(6) dok_matrix_def)
qed


section \<open>A line type that is not in the table\<close>













section \<open>Rows of the nodal admittance matrix\<close>










section \<open>Phase count and \<open>n_phases\<close>\<close>












section \<open>Parallel lines\<close>












section \<open>Determinism\<close>




end
